theory Spec2Isabelle
  imports Complex_Main
begin

section \<open>The distant directional sensor (src/sensors/distant.cpp)\<close>

text \<open>
  The plugin is a template over the arithmetic type \<open>Float\<close>. This development reads
  \<open>Float\<close> as the exact reals: it follows which quantities the code combines and in
  which order, not the rounding of the result. A quotient whose divisor is zero is infinite
  or NaN in the code and has no real value, so every statement about a quotient is made
  where its divisor is nonzero.
\<close>

subsection \<open>Vectors, spectra and rays\<close>

type_synonym vec3 = "real \<times> real \<times> real"
type_synonym vec2 = "real \<times> real"

text \<open>\<open>Spectrum\<close> and \<open>Wavelength\<close> are arrays of \<open>Float\<close>, one entry per channel.\<close>

type_synonym spectrum = "real list"

text \<open>
  A \<open>Transform4f\<close> is used by the sensor through \<open>transform_affine\<close> on \<open>Vector3f\<close>
  arguments only; it is represented by that action. An \<open>AnimatedTransform\<close> is its
  \<open>eval\<close>, from a time to a transform.
\<close>

type_synonym transform = "vec3 \<Rightarrow> vec3"
type_synonym animated_transform = "real \<Rightarrow> transform"

fun vneg :: "vec3 \<Rightarrow> vec3" where
  "vneg (x, y, z) = (- x, - y, - z)"

fun vadd :: "vec3 \<Rightarrow> vec3 \<Rightarrow> vec3" where
  "vadd (x, y, z) (x', y', z') = (x + x', y + y', z + z')"

fun vsub :: "vec3 \<Rightarrow> vec3 \<Rightarrow> vec3" where
  "vsub (x, y, z) (x', y', z') = (x - x', y - y', z - z')"

fun vscale :: "vec3 \<Rightarrow> real \<Rightarrow> vec3" where
  "vscale (x, y, z) c = (x * c, y * c, z * c)"

fun dot :: "vec3 \<Rightarrow> vec3 \<Rightarrow> real" where
  "dot (x, y, z) (x', y', z') = x * x' + y * y' + z * z'"

fun cross3 :: "vec3 \<Rightarrow> vec3 \<Rightarrow> vec3" where
  "cross3 (x, y, z) (x', y', z') = (y * z' - z * y', z * x' - x * z', x * y' - y * x')"

definition normalize_vec :: "vec3 \<Rightarrow> vec3" where
  "normalize_vec v = vscale v (1 / sqrt (dot v v))"

text \<open>
  The reciprocal cached by a ray: \<open>None\<close> stands for the non-finite value that the code
  stores for a zero component.
\<close>

definition rcp :: "real \<Rightarrow> real option" where
  "rcp x = (if x = 0 then None else Some (1 / x))"

record ray =
  ray_o :: vec3
  ray_d :: vec3
  ray_d_rcp :: "(real option \<times> real option \<times> real option) option"
  ray_time :: real
  ray_wavelengths :: "real list"

record ray_differential = ray +
  has_differentials :: bool

text \<open>\<open>Ray::update()\<close> recomputes the cached reciprocal of the direction.\<close>

definition ray_update :: "'a ray_scheme \<Rightarrow> 'a ray_scheme" where
  "ray_update r =
     (case ray_d r of (x, y, z) \<Rightarrow> r\<lparr>ray_d_rcp := Some (rcp x, rcp y, rcp z)\<rparr>)"

subsection \<open>Collaborators: shapes, film, scene, properties\<close>

record position_sample =
  ps_p :: vec3
  ps_n :: vec3
  ps_pdf :: real

record surface_interaction =
  si_p :: vec3
  si_is_valid :: bool

text \<open>
  A \<open>Shape\<close> is known to the sensor through three virtual methods. The probe ray handed
  to \<open>ray_intersect\<close> is given by its origin, direction and time.
\<close>

record shape =
  sample_position :: "real \<Rightarrow> vec2 \<Rightarrow> bool \<Rightarrow> position_sample"
  surface_area :: real
  ray_intersect :: "vec3 \<times> vec3 \<times> real \<Rightarrow> bool \<Rightarrow> surface_interaction"

record film =
  film_size :: "int \<times> int"
  rfilter_radius :: real

record bsphere =
  center :: vec3
  radius :: real

datatype object = ShapeObject shape | OtherObject

text \<open>
  Modelled from the spec: the value of an entry of \<open>Properties\<close> (the class is not part
  of the sources at hand). A point or vector literal is a 3D array; \<open>PFloat\<close> stands for
  the scalar and string types, which the sensor never asks for.
\<close>

datatype pvalue =
    PBool bool
  | PFloat real
  | PArray3f vec3
  | PTransform animated_transform
  | PObject object

type_synonym props = "string \<Rightarrow> pvalue option"

datatype error =
    Property_error
  | Direction_and_to_world
  | Invalid_ray_target
  | Invalid_ray_origin

text \<open>
  Modelled from the spec: the accessors of \<open>Properties\<close>. An accessor without a default
  throws when the entry is missing or has another type; one with a default throws only on
  another type.
\<close>

definition has_property :: "props \<Rightarrow> string \<Rightarrow> bool" where
  "has_property p n = (p n \<noteq> None)"

definition point3f :: "props \<Rightarrow> string \<Rightarrow> error + vec3" where
  "point3f p n = (case p n of Some (PArray3f v) \<Rightarrow> Inr v | _ \<Rightarrow> Inl Property_error)"

definition vector3f :: "props \<Rightarrow> string \<Rightarrow> error + vec3" where
  "vector3f p n = (case p n of Some (PArray3f v) \<Rightarrow> Inr v | _ \<Rightarrow> Inl Property_error)"

definition bool_prop :: "props \<Rightarrow> string \<Rightarrow> bool \<Rightarrow> error + bool" where
  "bool_prop p n dflt =
     (case p n of None \<Rightarrow> Inr dflt | Some (PBool b) \<Rightarrow> Inr b | Some _ \<Rightarrow> Inl Property_error)"

definition object_prop :: "props \<Rightarrow> string \<Rightarrow> error + object" where
  "object_prop p n = (case p n of Some (PObject ob) \<Rightarrow> Inr ob | _ \<Rightarrow> Inl Property_error)"

text \<open>\<open>dynamic_cast<Shape *>\<close>: the shape, or null.\<close>

definition as_shape :: "object \<Rightarrow> shape option" where
  "as_shape ob = (case ob of ShapeObject sh \<Rightarrow> Some sh | OtherObject \<Rightarrow> None)"

text \<open>
  Modelled from the spec: the constructor of the base class \<open>Sensor\<close>, which is not part
  of the sources at hand. It takes the world transform from \<open>to_world\<close>, the identity
  when the entry is absent.
\<close>

definition sensor_base :: "props \<Rightarrow> error + animated_transform" where
  "sensor_base p =
     (case p ''to_world'' of
        None \<Rightarrow> Inr (\<lambda>t v. v)
      | Some (PTransform T) \<Rightarrow> Inr T
      | Some _ \<Rightarrow> Inl Property_error)"

text \<open>
  What the code takes from headers that are not part of the sources at hand: the constant
  \<open>math::RayEpsilon\<close>, the macro \<open>MTS_MASK_ARGUMENT\<close> (what it makes of the mask it is
  given), the wavelength sampler, the two warps, and the frame constructions
  \<open>coordinate_system\<close> and \<open>Transform::look_at\<close>.
\<close>

record env =
  RayEpsilon :: real
  mask_argument :: "bool \<Rightarrow> bool"
  sample_wavelength :: "real \<Rightarrow> real list \<times> spectrum"
  square_to_uniform_hemisphere :: "vec2 \<Rightarrow> vec3"
  square_to_uniform_disk_concentric :: "vec2 \<Rightarrow> vec2"
  coordinate_system :: "vec3 \<Rightarrow> vec3 \<times> vec3"
  look_at :: "vec3 \<Rightarrow> vec3 \<Rightarrow> vec3 \<Rightarrow> transform"

subsection \<open>The dispatching plugin \<open>DistantSensor\<close>\<close>

datatype RayTargetType = TargetShape | TargetPoint | TargetNone
datatype RayOriginType = OriginShape | OriginBoundingSphere
datatype RayDirectionType = Single | SampleWidth | SampleAll

text \<open>
  Lines 113 to 124: a target entry that \<open>point3f\<close> accepts selects \<open>Point\<close>; when
  \<open>point3f\<close> throws, the exception is caught and \<open>Shape\<close> is selected.
\<close>

definition select_ray_target_type :: "props \<Rightarrow> RayTargetType" where
  "select_ray_target_type p =
     (if has_property p ''ray_target'' then
        (case point3f p ''ray_target'' of
           Inr _ \<Rightarrow> TargetPoint
         | Inl _ \<Rightarrow> TargetShape)
      else TargetNone)"

definition select_ray_origin_type :: "props \<Rightarrow> RayOriginType" where
  "select_ray_origin_type p =
     (if has_property p ''ray_origin'' then OriginShape else OriginBoundingSphere)"

record distant_sensor =
  m_props :: props
  m_ray_target_type :: RayTargetType
  m_ray_origin_type :: RayOriginType

definition DistantSensor :: "props \<Rightarrow> error + distant_sensor" where
  "DistantSensor p =
     (case sensor_base p of
        Inl e \<Rightarrow> Inl e
      | Inr _ \<Rightarrow>
          Inr \<lparr>m_props = p,
               m_ray_target_type = select_ray_target_type p,
               m_ray_origin_type = select_ray_origin_type p\<rparr>)"

subsection \<open>The specialised sensor \<open>DistantSensorImpl\<close>\<close>

text \<open>
  The template parameter \<open>TargetType\<close> is kept together with the member it gives a
  meaning to (\<open>m_ray_target_shape\<close> or \<open>m_ray_target_point\<close>), and \<open>OriginType\<close>
  together with \<open>m_ray_origin_shape\<close>.
\<close>

datatype target = Target_Shape shape | Target_Point vec3 | Target_None
datatype origin = Origin_Shape shape | Origin_BoundingSphere

fun target_type :: "target \<Rightarrow> RayTargetType" where
  "target_type (Target_Shape _) = TargetShape"
| "target_type (Target_Point _) = TargetPoint"
| "target_type Target_None = TargetNone"

fun origin_type :: "origin \<Rightarrow> RayOriginType" where
  "origin_type (Origin_Shape _) = OriginShape"
| "origin_type Origin_BoundingSphere = OriginBoundingSphere"

record sensor =
  m_target :: target
  m_origin :: origin
  m_world_transform :: animated_transform
  m_film :: film
  m_bsphere :: bsphere
  m_flip_directions :: bool
  m_direction_type :: RayDirectionType

text \<open>Lines 229 to 238: the direction sampling mode, from the film size.\<close>

definition select_direction_type :: "int \<times> int \<Rightarrow> RayDirectionType" where
  "select_direction_type sz =
     (if sz = (1, 1) then Single
      else if snd sz = 1 then SampleWidth
      else SampleAll)"

text \<open>Lines 246 to 264: the world transform, rebuilt from \<open>direction\<close> when it is given.\<close>

definition select_world_transform ::
  "env \<Rightarrow> props \<Rightarrow> animated_transform \<Rightarrow> error + animated_transform" where
  "select_world_transform E p base =
     (if has_property p ''direction'' then
        (if has_property p ''to_world'' then Inl Direction_and_to_world
         else
           (case vector3f p ''direction'' of
              Inl e \<Rightarrow> Inl e
            | Inr dv \<Rightarrow>
                (let direction = normalize_vec dv in
                 (case (if has_property p ''orientation'' then
                          (case vector3f p ''orientation'' of
                             Inl e \<Rightarrow> Inl e
                           | Inr ov \<Rightarrow> Inr (normalize_vec (cross3 direction ov)))
                        else Inr (snd (coordinate_system E direction)))
                  of
                    Inl e \<Rightarrow> Inl e
                  | Inr up \<Rightarrow> Inr (\<lambda>t. look_at E (0, 0, 0) direction up)))))
      else Inr base)"

text \<open>Lines 266 to 278.\<close>

definition select_target :: "RayTargetType \<Rightarrow> props \<Rightarrow> error + target" where
  "select_target tt p =
     (case tt of
        TargetPoint \<Rightarrow>
          (case point3f p ''ray_target'' of
             Inl e \<Rightarrow> Inl e
           | Inr v \<Rightarrow> Inr (Target_Point v))
      | TargetShape \<Rightarrow>
          (case object_prop p ''ray_target'' of
             Inl e \<Rightarrow> Inl e
           | Inr ob \<Rightarrow>
               (case as_shape ob of
                  None \<Rightarrow> Inl Invalid_ray_target
                | Some sh \<Rightarrow> Inr (Target_Shape sh)))
      | TargetNone \<Rightarrow> Inr Target_None)"

text \<open>Lines 280 to 289.\<close>

definition select_origin :: "RayOriginType \<Rightarrow> props \<Rightarrow> error + origin" where
  "select_origin ot p =
     (case ot of
        OriginShape \<Rightarrow>
          (case object_prop p ''ray_origin'' of
             Inl e \<Rightarrow> Inl e
           | Inr ob \<Rightarrow>
               (case as_shape ob of
                  None \<Rightarrow> Inl Invalid_ray_origin
                | Some sh \<Rightarrow> Inr (Origin_Shape sh)))
      | OriginBoundingSphere \<Rightarrow> Inr Origin_BoundingSphere)"

text \<open>
  The constructor. The film is a child object that the base class resolves; it is passed
  beside the properties. The two log messages and the warning about the reconstruction
  filter change nothing and are left out. A fresh bounding sphere sits at the origin with
  radius zero.
\<close>

definition DistantSensorImpl ::
  "env \<Rightarrow> RayTargetType \<Rightarrow> RayOriginType \<Rightarrow> props \<Rightarrow> film \<Rightarrow> error + sensor" where
  "DistantSensorImpl E tt ot p fm =
     (case sensor_base p of
        Inl e \<Rightarrow> Inl e
      | Inr base \<Rightarrow>
     (case bool_prop p ''flip_directions'' False of
        Inl e \<Rightarrow> Inl e
      | Inr flip \<Rightarrow>
     (case select_world_transform E p base of
        Inl e \<Rightarrow> Inl e
      | Inr wt \<Rightarrow>
     (case select_target tt p of
        Inl e \<Rightarrow> Inl e
      | Inr tg \<Rightarrow>
     (case select_origin ot p of
        Inl e \<Rightarrow> Inl e
      | Inr og \<Rightarrow>
          Inr \<lparr>m_target = tg,
               m_origin = og,
               m_world_transform = wt,
               m_film = fm,
               m_bsphere = \<lparr>center = (0, 0, 0), radius = 0\<rparr>,
               m_flip_directions = flip,
               m_direction_type = select_direction_type (film_size fm)\<rparr>)))))"

text \<open>\<open>expand\<close> (lines 150 to 208) builds the specialisation that the two tags name.\<close>

definition expand :: "env \<Rightarrow> distant_sensor \<Rightarrow> film \<Rightarrow> error + sensor" where
  "expand E ds fm =
     DistantSensorImpl E (m_ray_target_type ds) (m_ray_origin_type ds) (m_props ds) fm"

text \<open>Loading the plugin: construct the dispatcher, then expand it.\<close>

definition create :: "env \<Rightarrow> props \<Rightarrow> film \<Rightarrow> error + sensor" where
  "create E p fm =
     (case DistantSensor p of
        Inl e \<Rightarrow> Inl e
      | Inr ds \<Rightarrow> expand E ds fm)"

subsection \<open>\<open>set_scene\<close>\<close>

text \<open>The scene enters through the bounding sphere of its bounding box.\<close>

definition set_scene :: "env \<Rightarrow> bsphere \<Rightarrow> sensor \<Rightarrow> sensor" where
  "set_scene E scene_bsphere s =
     s\<lparr>m_bsphere :=
         \<lparr>center = center scene_bsphere,
          radius = max (RayEpsilon E) (radius scene_bsphere * (1 + RayEpsilon E))\<rparr>\<rparr>"

subsection \<open>Ray generation: \<open>sample_ray_impl\<close>\<close>

definition sincos :: "real \<Rightarrow> real \<times> real" where
  "sincos x = (sin x, cos x)"

text \<open>\<open>ray_weight && active\<close>: the weight on an active lane, zero in every channel otherwise.\<close>

definition select_mask :: "bool \<Rightarrow> spectrum \<Rightarrow> spectrum" where
  "select_mask active w = (if active then w else map (\<lambda>_. 0) w)"

text \<open>Lines 316 to 326: the direction in the sensor's frame.\<close>

definition local_direction :: "env \<Rightarrow> sensor \<Rightarrow> vec2 \<Rightarrow> vec3" where
  "local_direction E s film_sample =
     (if m_direction_type s = SampleAll then square_to_uniform_hemisphere E film_sample
      else if m_direction_type s = SampleWidth then
        (case sincos (pi * fst film_sample) of (sn, c) \<Rightarrow> (c, 0, sn))
      else (0, 0, 1))"

text \<open>Lines 331 and 332: the direction of the ray, in world space.\<close>

definition ray_direction :: "env \<Rightarrow> sensor \<Rightarrow> transform \<Rightarrow> vec2 \<Rightarrow> vec3" where
  "ray_direction E s trafo film_sample =
     (let v0 = local_direction E s film_sample in
      if m_flip_directions s then trafo v0 else trafo (vneg v0))"

text \<open>
  Lines 335 to 365: the target point and the weight, given the direction \<open>d\<close> of the ray.
  The surface interaction built from the position sample has the sample's position.
\<close>

definition sample_target ::
  "env \<Rightarrow> sensor \<Rightarrow> transform \<Rightarrow> real \<Rightarrow> vec2 \<Rightarrow> bool \<Rightarrow> spectrum \<Rightarrow> vec3 \<Rightarrow> vec3 \<times> spectrum" where
  "sample_target E s trafo time aperture_sample active wav_weight d =
     (case m_target s of
        Target_Point p \<Rightarrow> (p, wav_weight)
      | Target_Shape sh \<Rightarrow>
          (let ps = sample_position sh time aperture_sample active in
           (ps_p ps, map (\<lambda>w. w / ps_pdf ps / surface_area sh) wav_weight))
      | Target_None \<Rightarrow>
          (case square_to_uniform_disk_concentric E aperture_sample of
             (offset_x, offset_y) \<Rightarrow>
               (let perp_offset = trafo (offset_x, offset_y, 0);
                    ray_target =
                      vadd (center (m_bsphere s)) (vscale perp_offset (radius (m_bsphere s)))
                in (ray_target, map (\<lambda>w. w / dot (vneg d) (0, 0, 1)) wav_weight))))"

text \<open>Lines 367 to 383: the origin, and the mask after the origin has been placed.\<close>

definition sample_origin :: "sensor \<Rightarrow> real \<Rightarrow> vec3 \<Rightarrow> vec3 \<Rightarrow> bool \<Rightarrow> vec3 \<times> bool" where
  "sample_origin s time ray_target d active =
     (case m_origin s of
        Origin_Shape sh \<Rightarrow>
          (let si = ray_intersect sh (ray_target, vneg d, time) active in
           (si_p si, active \<and> si_is_valid si))
      | Origin_BoundingSphere \<Rightarrow>
          (if target_type (m_target s) = TargetNone then
             (vsub ray_target (vscale d (radius (m_bsphere s))), active)
           else
             (vsub ray_target (vscale (vscale d 2) (radius (m_bsphere s))), active)))"

text \<open>
  The whole of \<open>sample_ray_impl\<close>. \<open>ext\<close> is what default construction leaves in the
  fields that the ray variant adds to \<open>Ray3f\<close>.
\<close>

definition sample_ray_impl ::
  "'a \<Rightarrow> env \<Rightarrow> sensor \<Rightarrow> real \<Rightarrow> real \<Rightarrow> vec2 \<Rightarrow> vec2 \<Rightarrow> bool \<Rightarrow> 'a ray_scheme \<times> spectrum" where
  "sample_ray_impl ext E s time wavelength_sample film_sample aperture_sample active0 =
     (let active = mask_argument E active0 in
      case sample_wavelength E wavelength_sample of
        (wavelengths, wav_weight) \<Rightarrow>
          (let trafo = m_world_transform s time;
               d = ray_direction E s trafo film_sample
           in case sample_target E s trafo time aperture_sample active wav_weight d of
             (ray_target, ray_weight) \<Rightarrow>
               (case sample_origin s time ray_target d active of
                  (org, active') \<Rightarrow>
                    (\<lparr>ray_o = org, ray_d = d, ray_d_rcp = None, ray_time = time,
                      ray_wavelengths = wavelengths, \<dots> = ext\<rparr>,
                     select_mask active' ray_weight))))"

text \<open>
  In the packet variants the same code runs on arrays, lane by lane: a packet of samples is
  a list of lanes, each with its own arguments and mask.
\<close>

type_synonym lane = "real \<times> real \<times> vec2 \<times> vec2 \<times> bool"

definition sample_ray_impl_packet ::
  "env \<Rightarrow> sensor \<Rightarrow> lane list \<Rightarrow> (ray \<times> spectrum) list" where
  "sample_ray_impl_packet E s lanes =
     map (\<lambda>(time, wavelength_sample, film_sample, aperture_sample, active).
            sample_ray_impl () E s time wavelength_sample film_sample aperture_sample active)
         lanes"

subsection \<open>The two entry points\<close>

definition sample_ray ::
  "env \<Rightarrow> sensor \<Rightarrow> real \<Rightarrow> real \<Rightarrow> vec2 \<Rightarrow> vec2 \<Rightarrow> bool \<Rightarrow> ray \<times> spectrum" where
  "sample_ray E s time wavelength_sample film_sample aperture_sample active0 =
     (let active = mask_argument E active0 in
      case sample_ray_impl () E s time wavelength_sample film_sample aperture_sample active of
        (r, ray_weight) \<Rightarrow> (ray_update r, select_mask active ray_weight))"

definition sample_ray_differential ::
  "env \<Rightarrow> sensor \<Rightarrow> real \<Rightarrow> real \<Rightarrow> vec2 \<Rightarrow> vec2 \<Rightarrow> bool \<Rightarrow> ray_differential \<times> spectrum" where
  "sample_ray_differential E s time wavelength_sample film_sample aperture_sample active0 =
     (let active = mask_argument E active0 in
      case sample_ray_impl (ray_differential.fields False) E s time wavelength_sample
             film_sample aperture_sample active of
        (r, ray_weight) \<Rightarrow>
          (ray_update (r\<lparr>has_differentials := False\<rparr>), select_mask active ray_weight))"

text \<open>
  A sensor is driven by calls. \<open>set_scene\<close> is the only one that writes a member; the two
  ray generators are \<open>const\<close> and return their result beside the unchanged sensor.
\<close>

datatype call =
    Set_scene bsphere
  | Sample_ray real real vec2 vec2 bool
  | Sample_ray_differential real real vec2 vec2 bool

fun is_ray_generation :: "call \<Rightarrow> bool" where
  "is_ray_generation (Set_scene _) = False"
| "is_ray_generation _ = True"

fun apply_call :: "env \<Rightarrow> sensor \<Rightarrow> call \<Rightarrow> sensor" where
  "apply_call E s (Set_scene b) = set_scene E b s"
| "apply_call E s (Sample_ray t w f a m) = s"
| "apply_call E s (Sample_ray_differential t w f a m) = s"

definition apply_calls :: "env \<Rightarrow> sensor \<Rightarrow> call list \<Rightarrow> sensor" where
  "apply_calls E s cs = foldl (apply_call E) s cs"


subsection \<open>The specification's reading of two formulas\<close>

text \<open>
  The radius as the specification words it: the scene's radius is first clamped to at
  least epsilon, and the clamped value is then inflated by \<open>1 + epsilon\<close>.
\<close>

definition clamp_then_inflate :: "env \<Rightarrow> real \<Rightarrow> real" where
  "clamp_then_inflate E r = max (RayEpsilon E) r * (1 + RayEpsilon E)"

text \<open>
  The cosine as the specification words it: between the negated ray direction and the z-axis
  of the sensor's frame. The ray direction is a world-space vector, so the axis is taken
  to world space by the world transform.
\<close>

definition claimed_cosine :: "transform \<Rightarrow> vec3 \<Rightarrow> real" where
  "claimed_cosine trafo d = dot (vneg d) (trafo (0, 0, 1))"

text \<open>
  The target and the origin that the specification assigns to an entry of the configuration:
  no entry, a 3D point, a shape object. Any other entry has none.
\<close>

definition expected_target :: "pvalue option \<Rightarrow> target option" where
  "expected_target v =
     (case v of
        None \<Rightarrow> Some Target_None
      | Some (PArray3f q) \<Rightarrow> Some (Target_Point q)
      | Some (PObject (ShapeObject sh)) \<Rightarrow> Some (Target_Shape sh)
      | Some _ \<Rightarrow> None)"

definition expected_origin :: "pvalue option \<Rightarrow> origin option" where
  "expected_origin v =
     (case v of
        None \<Rightarrow> Some Origin_BoundingSphere
      | Some (PObject (ShapeObject sh)) \<Rightarrow> Some (Origin_Shape sh)
      | Some _ \<Rightarrow> None)"

text \<open>The same target with another intersection routine in its shape, if it has one.\<close>

definition target_with_intersect ::
  "(vec3 \<times> vec3 \<times> real \<Rightarrow> bool \<Rightarrow> surface_interaction) \<Rightarrow> target \<Rightarrow> target" where
  "target_with_intersect ri tg =
     (case tg of Target_Shape sh \<Rightarrow> Target_Shape (sh\<lparr>ray_intersect := ri\<rparr>) | _ \<Rightarrow> tg)"

subsection \<open>Concrete instances\<close>

text \<open>
  An environment to evaluate the sensor in: a single wavelength of weight one, masks left
  as given, and warps that return the pole of the hemisphere and the centre of the disk,
  which are their values at the centre \<open>(1/2, 1/2)\<close> of the unit square.
\<close>

definition example_env :: env where
  "example_env =
     \<lparr>RayEpsilon = 1 / 10000,
      mask_argument = (\<lambda>m. m),
      sample_wavelength = (\<lambda>u. ([550], [1])),
      square_to_uniform_hemisphere = (\<lambda>p. (0, 0, 1)),
      square_to_uniform_disk_concentric = (\<lambda>p. (0, 0)),
      coordinate_system = (\<lambda>v. ((1, 0, 0), (0, 1, 0))),
      look_at = (\<lambda>org tgt up v. v)\<rparr>"

definition example_film :: "int \<Rightarrow> int \<Rightarrow> film" where
  "example_film w h = \<lparr>film_size = (w, h), rfilter_radius = 1 / 2\<rparr>"

text \<open>A rotation about the x-axis, by the angle whose cosine is 4/5 and sine is 3/5.\<close>

definition tilt :: transform where
  "tilt v = (case v of (x, y, z) \<Rightarrow> (x, 4 / 5 * y - 3 / 5 * z, 3 / 5 * y + 4 / 5 * z))"

text \<open>
  The horizontal square of side 2 at height \<open>h\<close>, sampled uniformly, and hit by a ray
  that crosses its plane inside the square.
\<close>

definition square_shape :: "real \<Rightarrow> shape" where
  "square_shape h =
     \<lparr>sample_position =
        (\<lambda>t u act. \<lparr>ps_p = (2 * fst u - 1, 2 * snd u - 1, h), ps_n = (0, 0, 1), ps_pdf = 1 / 4\<rparr>),
      surface_area = 4,
      ray_intersect =
        (\<lambda>(org, dir, t) act.
           if snd (snd dir) \<noteq> 0 \<and> 0 < (h - snd (snd org)) / snd (snd dir) then
             (let p = vadd org (vscale dir ((h - snd (snd org)) / snd (snd dir))) in
              if \<bar>fst p\<bar> \<le> 1 \<and> \<bar>fst (snd p)\<bar> \<le> 1
              then \<lparr>si_p = p, si_is_valid = True\<rparr>
              else \<lparr>si_p = (0, 0, 0), si_is_valid = False\<rparr>)
           else \<lparr>si_p = (0, 0, 0), si_is_valid = False\<rparr>)\<rparr>"

text \<open>
  The same square with a sampler that draws from the half \<open>x \<le> 0\<close> only: the density
  is 1/2 there, while the surface area is still 4.
\<close>

definition half_sampled_square :: "real \<Rightarrow> shape" where
  "half_sampled_square h =
     (square_shape h)
       \<lparr>sample_position :=
          (\<lambda>t u act. \<lparr>ps_p = (fst u - 1, 2 * snd u - 1, h), ps_n = (0, 0, 1), ps_pdf = 1 / 2\<rparr>)\<rparr>"

text \<open>A quarter turn about the x-axis: it takes the z-axis to the horizontal.\<close>

definition quarter_turn :: transform where
  "quarter_turn v = (case v of (x, y, z) \<Rightarrow> (x, - z, y))"

text \<open>Property sets.\<close>

definition no_props :: props where
  "no_props = (\<lambda>n. None)"

definition point_props :: props where
  "point_props = no_props(''ray_target'' \<mapsto> PArray3f (1, 2, 3))"

definition bad_target_props :: props where
  "bad_target_props = no_props(''ray_target'' \<mapsto> PObject OtherObject)"

definition bad_origin_props :: props where
  "bad_origin_props = no_props(''ray_origin'' \<mapsto> PArray3f (0, 0, 5))"

definition shape_props :: props where
  "shape_props =
     no_props(''ray_target'' \<mapsto> PObject (ShapeObject (square_shape 0)),
              ''ray_origin'' \<mapsto> PObject (ShapeObject (square_shape 5)))"

definition to_world_props :: props where
  "to_world_props = no_props(''to_world'' \<mapsto> PTransform (\<lambda>t. tilt))"

text \<open>Sensors.\<close>

definition example_sensor :: sensor where
  "example_sensor =
     \<lparr>m_target = Target_None, m_origin = Origin_BoundingSphere,
      m_world_transform = (\<lambda>t v. v), m_film = example_film 1 1,
      m_bsphere = \<lparr>center = (0, 0, 0), radius = 0\<rparr>,
      m_flip_directions = False, m_direction_type = Single\<rparr>"

definition planar_sensor :: sensor where
  "planar_sensor =
     \<lparr>m_target = Target_None, m_origin = Origin_BoundingSphere,
      m_world_transform = (\<lambda>t v. v), m_film = example_film 3 1,
      m_bsphere = \<lparr>center = (0, 0, 0), radius = 0\<rparr>,
      m_flip_directions = False, m_direction_type = SampleWidth\<rparr>"

definition to_world_sensor :: sensor where
  "to_world_sensor = example_sensor\<lparr>m_world_transform := (\<lambda>t. tilt)\<rparr>"

definition tilted_sensor :: sensor where
  "tilted_sensor = set_scene example_env \<lparr>center = (0, 0, 0), radius = 1\<rparr> to_world_sensor"

definition point_sensor :: sensor where
  "point_sensor =
     \<lparr>m_target = Target_Point (1, 2, 3), m_origin = Origin_BoundingSphere,
      m_world_transform = (\<lambda>t v. v), m_film = example_film 1 1,
      m_bsphere = \<lparr>center = (0, 0, 0), radius = 2\<rparr>,
      m_flip_directions = False, m_direction_type = Single\<rparr>"

definition shape_origin_sensor :: sensor where
  "shape_origin_sensor =
     \<lparr>m_target = Target_Point (0, 0, 0), m_origin = Origin_Shape (square_shape 5),
      m_world_transform = (\<lambda>t v. v), m_film = example_film 2 1,
      m_bsphere = \<lparr>center = (0, 0, 0), radius = 1\<rparr>,
      m_flip_directions = False, m_direction_type = SampleWidth\<rparr>"

definition tilted_point_sensor :: sensor where
  "tilted_point_sensor = tilted_sensor\<lparr>m_target := Target_Point (0, 0, 0)\<rparr>"

definition sideways_sensor :: sensor where
  "sideways_sensor = example_sensor\<lparr>m_world_transform := (\<lambda>t. quarter_turn)\<rparr>"

definition shape_shape_sensor :: sensor where
  "shape_shape_sensor =
     \<lparr>m_target = Target_Shape (square_shape 0), m_origin = Origin_Shape (square_shape 5),
      m_world_transform = (\<lambda>t v. v), m_film = example_film 2 1,
      m_bsphere = \<lparr>center = (0, 0, 0), radius = 2\<rparr>,
      m_flip_directions = False, m_direction_type = SampleWidth\<rparr>"

definition tilted_shape_sensor :: sensor where
  "tilted_shape_sensor =
     \<lparr>m_target = Target_Shape (half_sampled_square 0), m_origin = Origin_BoundingSphere,
      m_world_transform = (\<lambda>t. tilt), m_film = example_film 1 1,
      m_bsphere = \<lparr>center = (0, 0, 0), radius = 2\<rparr>,
      m_flip_directions = False, m_direction_type = Single\<rparr>"


section \<open>Properties\<close>

subsection \<open>Construction\<close>

lemmas create_defs =
  create_def DistantSensor_def expand_def DistantSensorImpl_def sensor_base_def bool_prop_def
  select_world_transform_def has_property_def select_target_def select_origin_def
  select_ray_target_type_def select_ray_origin_type_def point3f_def vector3f_def
  object_prop_def as_shape_def select_direction_type_def

lemma select_ray_target_type_cases:
  "select_ray_target_type p =
     (case p ''ray_target'' of
        None \<Rightarrow> TargetNone
      | Some (PArray3f v) \<Rightarrow> TargetPoint
      | Some _ \<Rightarrow> TargetShape)"
  by (simp add: select_ray_target_type_def has_property_def point3f_def
      split: option.splits pvalue.splits)

lemma select_ray_origin_type_cases:
  "select_ray_origin_type p =
     (case p ''ray_origin'' of None \<Rightarrow> OriginBoundingSphere | Some _ \<Rightarrow> OriginShape)"
  by (simp add: select_ray_origin_type_def has_property_def split: option.splits)

lemma select_target_type: "select_target tt p = Inr tg \<Longrightarrow> target_type tg = tt"
  by (cases tt) (auto simp: select_target_def split: sum.splits option.splits)

lemma select_origin_type: "select_origin ot p = Inr og \<Longrightarrow> origin_type og = ot"
  by (cases ot) (auto simp: select_origin_def split: sum.splits option.splits)

lemma select_target_not_shape:
  "\<forall>sh. p ''ray_target'' \<noteq> Some (PObject (ShapeObject sh)) \<Longrightarrow>
     isl (select_target TargetShape p)"
  by (auto simp: select_target_def object_prop_def as_shape_def
      split: option.splits pvalue.splits object.splits)

lemma select_origin_not_shape:
  "\<forall>sh. p ''ray_origin'' \<noteq> Some (PObject (ShapeObject sh)) \<Longrightarrow>
     isl (select_origin OriginShape p)"
  by (auto simp: select_origin_def object_prop_def as_shape_def
      split: option.splits pvalue.splits object.splits)

lemma DistantSensorImpl_Inr:
  "DistantSensorImpl E tt ot p fm = Inr s \<Longrightarrow>
     select_target tt p = Inr (m_target s) \<and> select_origin ot p = Inr (m_origin s)"
  by (auto simp: DistantSensorImpl_def split: sum.splits)

lemma DistantSensorImpl_isl:
  "isl (select_target tt p) \<or> isl (select_origin ot p) \<Longrightarrow> isl (DistantSensorImpl E tt ot p fm)"
  by (auto simp: DistantSensorImpl_def split: sum.splits)

lemma create_Inr:
  "create E p fm = Inr s \<Longrightarrow>
     DistantSensorImpl E (select_ray_target_type p) (select_ray_origin_type p) p fm = Inr s"
  by (auto simp: create_def DistantSensor_def expand_def split: sum.splits)

lemma create_isl:
  "isl (DistantSensorImpl E (select_ray_target_type p) (select_ray_origin_type p) p fm) \<Longrightarrow>
     isl (create E p fm)"
  by (auto simp: create_def DistantSensor_def expand_def split: sum.splits)

lemma create_point_props:
  "create example_env point_props (example_film 1 1) =
     Inr (example_sensor\<lparr>m_target := Target_Point (1, 2, 3)\<rparr>)"
  by (simp add: create_defs point_props_def no_props_def example_sensor_def example_film_def)

lemma expected_target_select:
  "expected_target (p ''ray_target'') = Some tg \<Longrightarrow>
     select_target (select_ray_target_type p) p = Inr tg"
  by (auto simp: expected_target_def select_ray_target_type_def select_target_def
      has_property_def point3f_def object_prop_def as_shape_def
      split: option.splits pvalue.splits object.splits)

lemma expected_origin_select:
  "expected_origin (p ''ray_origin'') = Some og \<Longrightarrow>
     select_origin (select_ray_origin_type p) p = Inr og"
  by (auto simp: expected_origin_def select_ray_origin_type_def select_origin_def
      has_property_def object_prop_def as_shape_def
      split: option.splits pvalue.splits object.splits)

lemma expected_target_none:
  "expected_target (p ''ray_target'') = None \<Longrightarrow>
     isl (select_target (select_ray_target_type p) p)"
  by (auto simp: expected_target_def select_ray_target_type_def select_target_def
      has_property_def point3f_def object_prop_def as_shape_def
      split: option.splits pvalue.splits object.splits)

lemma expected_origin_none:
  "expected_origin (p ''ray_origin'') = None \<Longrightarrow>
     isl (select_origin (select_ray_origin_type p) p)"
  by (auto simp: expected_origin_def select_ray_origin_type_def select_origin_def
      has_property_def object_prop_def as_shape_def
      split: option.splits pvalue.splits object.splits)

lemma create_built:
  assumes "sensor_base p = Inr base"
    and "bool_prop p ''flip_directions'' False = Inr flip"
    and "select_world_transform E p base = Inr wt"
    and "expected_target (p ''ray_target'') = Some tg"
    and "expected_origin (p ''ray_origin'') = Some og"
  shows "create E p fm =
           Inr \<lparr>m_target = tg, m_origin = og, m_world_transform = wt, m_film = fm,
                m_bsphere = \<lparr>center = (0, 0, 0), radius = 0\<rparr>,
                m_flip_directions = flip,
                m_direction_type = select_direction_type (film_size fm)\<rparr>"
  using assms(1,2,3) expected_target_select [where p = p and tg = tg, OF assms(4)]
    expected_origin_select [where p = p and og = og, OF assms(5)]
  by (simp add: create_def DistantSensor_def expand_def DistantSensorImpl_def)

text \<open>
  Claim C4. The strategy is selected at construction, and every configuration gets one of
  the three target tags and one of the two origin tags. An absent \<open>ray_target\<close> selects
  \<open>None\<close>, one that reads as a 3D point selects \<open>Point\<close>, any other selects \<open>Shape\<close>;
  an absent \<open>ray_origin\<close> selects \<open>BoundingSphere\<close>, a present one \<open>Shape\<close>. A sensor
  that is constructed carries the selected pair of tags. Construction fails when the target
  was selected as \<open>Shape\<close> and the entry is not a shape object, and when the origin was
  selected as \<open>Shape\<close> and the entry is not a shape object. In every other configuration
  the variant is built: when the base class, the flag and the world transform are read
  without error, the constructed sensor holds the configured point or the configured shape
  as its target and the configured shape as its origin, and the bounding sphere where
  there is no entry.
\<close>

theorem strategy_selection:
  "select_ray_target_type p =
     (case p ''ray_target'' of
        None \<Rightarrow> TargetNone
      | Some (PArray3f v) \<Rightarrow> TargetPoint
      | Some _ \<Rightarrow> TargetShape)
   \<and> select_ray_origin_type p =
       (case p ''ray_origin'' of None \<Rightarrow> OriginBoundingSphere | Some _ \<Rightarrow> OriginShape)
   \<and> (\<forall>s. create E p fm = Inr s \<longrightarrow>
          target_type (m_target s) = select_ray_target_type p
          \<and> origin_type (m_origin s) = select_ray_origin_type p)
   \<and> (select_ray_target_type p = TargetShape
        \<and> (\<forall>sh. p ''ray_target'' \<noteq> Some (PObject (ShapeObject sh)))
        \<longrightarrow> isl (create E p fm))
   \<and> (select_ray_origin_type p = OriginShape
        \<and> (\<forall>sh. p ''ray_origin'' \<noteq> Some (PObject (ShapeObject sh)))
        \<longrightarrow> isl (create E p fm))
   \<and> (\<forall>base flip wt tg og.
          sensor_base p = Inr base
          \<and> bool_prop p ''flip_directions'' False = Inr flip
          \<and> select_world_transform E p base = Inr wt
          \<and> expected_target (p ''ray_target'') = Some tg
          \<and> expected_origin (p ''ray_origin'') = Some og
          \<longrightarrow> create E p fm =
                Inr \<lparr>m_target = tg, m_origin = og, m_world_transform = wt, m_film = fm,
                     m_bsphere = \<lparr>center = (0, 0, 0), radius = 0\<rparr>,
                     m_flip_directions = flip,
                     m_direction_type = select_direction_type (film_size fm)\<rparr>)
   \<and> (expected_target (p ''ray_target'') = None \<longrightarrow> isl (create E p fm))
   \<and> (expected_origin (p ''ray_origin'') = None \<longrightarrow> isl (create E p fm))"
proof (intro conjI allI impI)
  show "select_ray_target_type p =
     (case p ''ray_target'' of
        None \<Rightarrow> TargetNone
      | Some (PArray3f v) \<Rightarrow> TargetPoint
      | Some _ \<Rightarrow> TargetShape)"
    by (rule select_ray_target_type_cases)
  show "select_ray_origin_type p =
       (case p ''ray_origin'' of None \<Rightarrow> OriginBoundingSphere | Some _ \<Rightarrow> OriginShape)"
    by (rule select_ray_origin_type_cases)
next
  fix s assume "create E p fm = Inr s"
  then have sel: "select_target (select_ray_target_type p) p = Inr (m_target s)
      \<and> select_origin (select_ray_origin_type p) p = Inr (m_origin s)"
    by (intro DistantSensorImpl_Inr create_Inr)
  from sel show "target_type (m_target s) = select_ray_target_type p"
    by (blast intro: select_target_type)
  from sel show "origin_type (m_origin s) = select_ray_origin_type p"
    by (blast intro: select_origin_type)
next
  assume "select_ray_target_type p = TargetShape
        \<and> (\<forall>sh. p ''ray_target'' \<noteq> Some (PObject (ShapeObject sh)))"
  then have "isl (select_target (select_ray_target_type p) p)"
    by (simp add: select_target_not_shape)
  then show "isl (create E p fm)"
    by (intro create_isl DistantSensorImpl_isl) simp
next
  assume "select_ray_origin_type p = OriginShape
        \<and> (\<forall>sh. p ''ray_origin'' \<noteq> Some (PObject (ShapeObject sh)))"
  then have "isl (select_origin (select_ray_origin_type p) p)"
    by (simp add: select_origin_not_shape)
  then show "isl (create E p fm)"
    by (intro create_isl DistantSensorImpl_isl) simp
next
  fix base flip wt tg og
  assume "sensor_base p = Inr base
          \<and> bool_prop p ''flip_directions'' False = Inr flip
          \<and> select_world_transform E p base = Inr wt
          \<and> expected_target (p ''ray_target'') = Some tg
          \<and> expected_origin (p ''ray_origin'') = Some og"
  then show "create E p fm =
                Inr \<lparr>m_target = tg, m_origin = og, m_world_transform = wt, m_film = fm,
                     m_bsphere = \<lparr>center = (0, 0, 0), radius = 0\<rparr>,
                     m_flip_directions = flip,
                     m_direction_type = select_direction_type (film_size fm)\<rparr>"
    by (elim conjE) (rule create_built)
next
  assume "expected_target (p ''ray_target'') = None"
  then have "isl (select_target (select_ray_target_type p) p)"
    by (rule expected_target_none)
  then show "isl (create E p fm)"
    by (intro create_isl DistantSensorImpl_isl) simp
next
  assume "expected_origin (p ''ray_origin'') = None"
  then have "isl (select_origin (select_ray_origin_type p) p)"
    by (rule expected_origin_none)
  then show "isl (create E p fm)"
    by (intro create_isl DistantSensorImpl_isl) simp
qed

theorem strategy_selection_witness:
  "create example_env point_props (example_film 1 1) =
     Inr (example_sensor\<lparr>m_target := Target_Point (1, 2, 3)\<rparr>)
   \<and> select_ray_target_type point_props = TargetPoint
   \<and> select_ray_origin_type point_props = OriginBoundingSphere
   \<and> target_type (m_target (example_sensor\<lparr>m_target := Target_Point (1, 2, 3)\<rparr>)) = TargetPoint
   \<and> select_ray_target_type shape_props = TargetShape
   \<and> select_ray_origin_type shape_props = OriginShape
   \<and> create example_env shape_props (example_film 1 1) =
       Inr (example_sensor\<lparr>m_target := Target_Shape (square_shape 0),
                            m_origin := Origin_Shape (square_shape 5)\<rparr>)
   \<and> create example_env no_props (example_film 1 1) = Inr example_sensor
   \<and> select_ray_target_type bad_target_props = TargetShape
   \<and> create example_env bad_target_props (example_film 1 1) = Inl Invalid_ray_target
   \<and> select_ray_origin_type bad_origin_props = OriginShape
   \<and> create example_env bad_origin_props (example_film 1 1) = Inl Property_error"
proof -
  note a = strategy_selection [of point_props example_env "example_film 1 1"]
  note b = strategy_selection [of bad_target_props example_env "example_film 1 1"]
  note c = strategy_selection [of bad_origin_props example_env "example_film 1 1"]
  note d = strategy_selection [of shape_props example_env "example_film 1 1"]
  note e = strategy_selection [of no_props example_env "example_film 1 1"]
  have ta: "select_ray_target_type point_props = TargetPoint"
    and oa: "select_ray_origin_type point_props = OriginBoundingSphere"
    using a by (simp_all add: point_props_def no_props_def)
  have sa: "target_type (m_target (example_sensor\<lparr>m_target := Target_Point (1, 2, 3)\<rparr>)) = TargetPoint"
    using a create_point_props ta by simp
  have td: "select_ray_target_type shape_props = TargetShape"
    and od: "select_ray_origin_type shape_props = OriginShape"
    using d by (simp_all add: shape_props_def no_props_def)
  have base0: "sensor_base no_props = Inr (\<lambda>t v. v)"
    and flip0: "bool_prop no_props ''flip_directions'' False = Inr False"
    and wt0: "select_world_transform example_env no_props (\<lambda>t v. v) = Inr (\<lambda>t v. v)"
    and tg0: "expected_target (no_props ''ray_target'') = Some Target_None"
    and og0: "expected_origin (no_props ''ray_origin'') = Some Origin_BoundingSphere"
    by (simp_all add: no_props_def sensor_base_def bool_prop_def select_world_transform_def
        has_property_def expected_target_def expected_origin_def)
  have base1: "sensor_base shape_props = Inr (\<lambda>t v. v)"
    and flip1: "bool_prop shape_props ''flip_directions'' False = Inr False"
    and wt1: "select_world_transform example_env shape_props (\<lambda>t v. v) = Inr (\<lambda>t v. v)"
    and tg1: "expected_target (shape_props ''ray_target'') = Some (Target_Shape (square_shape 0))"
    and og1: "expected_origin (shape_props ''ray_origin'') = Some (Origin_Shape (square_shape 5))"
    by (simp_all add: shape_props_def no_props_def sensor_base_def bool_prop_def
        select_world_transform_def has_property_def expected_target_def expected_origin_def)
  have "create example_env shape_props (example_film 1 1) =
       Inr \<lparr>m_target = Target_Shape (square_shape 0), m_origin = Origin_Shape (square_shape 5),
            m_world_transform = (\<lambda>t v. v), m_film = example_film 1 1,
            m_bsphere = \<lparr>center = (0, 0, 0), radius = 0\<rparr>,
            m_flip_directions = False,
            m_direction_type = select_direction_type (film_size (example_film 1 1))\<rparr>"
    using d base1 flip1 wt1 tg1 og1 by blast
  then have cd: "create example_env shape_props (example_film 1 1) =
       Inr (example_sensor\<lparr>m_target := Target_Shape (square_shape 0),
                            m_origin := Origin_Shape (square_shape 5)\<rparr>)"
    by (simp add: example_sensor_def example_film_def select_direction_type_def)
  have "create example_env no_props (example_film 1 1) =
       Inr \<lparr>m_target = Target_None, m_origin = Origin_BoundingSphere,
            m_world_transform = (\<lambda>t v. v), m_film = example_film 1 1,
            m_bsphere = \<lparr>center = (0, 0, 0), radius = 0\<rparr>,
            m_flip_directions = False,
            m_direction_type = select_direction_type (film_size (example_film 1 1))\<rparr>"
    using e base0 flip0 wt0 tg0 og0 by blast
  then have ce: "create example_env no_props (example_film 1 1) = Inr example_sensor"
    by (simp add: example_sensor_def example_film_def select_direction_type_def)
  have tb: "select_ray_target_type bad_target_props = TargetShape"
    using b by (simp add: bad_target_props_def no_props_def)
  have eb: "isl (create example_env bad_target_props (example_film 1 1))"
    using b tb by (simp add: bad_target_props_def no_props_def)
  have tc: "select_ray_origin_type bad_origin_props = OriginShape"
    using c by (simp add: bad_origin_props_def no_props_def)
  have ec: "isl (create example_env bad_origin_props (example_film 1 1))"
    using c tc by (simp add: bad_origin_props_def no_props_def)
  have vb: "create example_env bad_target_props (example_film 1 1) = Inl Invalid_ray_target"
    using eb by (simp add: create_defs bad_target_props_def no_props_def)
  have vc: "create example_env bad_origin_props (example_film 1 1) = Inl Property_error"
    using ec by (simp add: create_defs bad_origin_props_def no_props_def)
  from create_point_props ta oa sa td od cd ce tb vb tc vc show ?thesis
    by simp
qed

subsection \<open>Direction sampling mode\<close>

lemma select_direction_type_cases:
  "select_direction_type (w, h) =
     (if w = 1 \<and> h = 1 then Single else if h = 1 then SampleWidth else SampleAll)"
  by (simp add: select_direction_type_def)

lemma DistantSensorImpl_direction_type:
  "DistantSensorImpl E tt ot p fm = Inr s \<Longrightarrow>
     m_direction_type s = select_direction_type (film_size fm)"
  by (auto simp: DistantSensorImpl_def split: sum.splits)

lemma set_scene_direction_type: "m_direction_type (set_scene E b s) = m_direction_type s"
  by (simp add: set_scene_def)

lemma DistantSensorImpl_planar:
  "DistantSensorImpl example_env TargetNone OriginBoundingSphere no_props (example_film 3 1) =
     Inr planar_sensor"
  by (simp add: DistantSensorImpl_def sensor_base_def bool_prop_def select_world_transform_def
      has_property_def select_target_def select_origin_def example_film_def
      select_direction_type_def no_props_def planar_sensor_def)

text \<open>
  Claim C5. The direction sampling mode of a constructed sensor is a function of the film
  resolution \<open>(w, h)\<close> alone and is fixed at construction: \<open>(1, 1)\<close> gives \<open>Single\<close>,
  \<open>h = 1\<close> with \<open>w > 1\<close> gives the planar sweep (\<open>SampleWidth\<close>), and every other
  resolution, \<open>w = 1\<close> with \<open>h > 1\<close> among them, gives the hemisphere (\<open>SampleAll\<close>).
  A resolution counts pixels, so its width is at least one; attaching a scene leaves the
  mode as it is.
\<close>

theorem direction_mode_of_resolution:
  assumes "DistantSensorImpl E tt ot p fm = Inr s"
    and "film_size fm = (w, h)"
    and "1 \<le> w"
  shows "m_direction_type s =
           (if w = 1 \<and> h = 1 then Single
            else if h = 1 \<and> 1 < w then SampleWidth
            else SampleAll)
         \<and> m_direction_type (set_scene E b s) = m_direction_type s"
  using assms DistantSensorImpl_direction_type [OF assms(1)]
  by (auto simp: select_direction_type_cases set_scene_direction_type)

theorem direction_mode_of_resolution_witness:
  "DistantSensorImpl example_env TargetNone OriginBoundingSphere no_props (example_film 3 1) =
     Inr planar_sensor
   \<and> film_size (example_film 3 1) = (3, 1) \<and> (1::int) \<le> 3
   \<and> m_direction_type planar_sensor = SampleWidth
   \<and> m_direction_type (set_scene example_env \<lparr>center = (0, 0, 0), radius = 1\<rparr> planar_sensor)
       = SampleWidth"
proof -
  have sz: "film_size (example_film 3 1) = (3, 1)"
    by (simp add: example_film_def)
  have pos: "(1::int) \<le> 3"
    by simp
  from direction_mode_of_resolution [OF DistantSensorImpl_planar sz pos,
      of "\<lparr>center = (0, 0, 0), radius = 1\<rparr>"]
  have "m_direction_type planar_sensor = SampleWidth
        \<and> m_direction_type (set_scene example_env \<lparr>center = (0, 0, 0), radius = 1\<rparr> planar_sensor)
            = SampleWidth"
    by simp
  with DistantSensorImpl_planar sz show ?thesis
    by simp
qed

subsection \<open>The world transform and \<open>orientation\<close>\<close>

lemma select_world_transform_orientation:
  "p ''direction'' = None \<Longrightarrow>
     select_world_transform E (p(''orientation'' := x)) base = select_world_transform E p base"
  by (simp add: select_world_transform_def has_property_def)

lemma select_world_transform_no_direction:
  "p ''direction'' = None \<Longrightarrow> select_world_transform E p base = Inr base"
  by (simp add: select_world_transform_def has_property_def)

lemma sensor_base_orientation: "sensor_base (p(''orientation'' := x)) = sensor_base p"
  by (simp add: sensor_base_def)

lemma bool_prop_orientation:
  "bool_prop (p(''orientation'' := x)) ''flip_directions'' dflt =
     bool_prop p ''flip_directions'' dflt"
  by (simp add: bool_prop_def)

lemma select_target_orientation:
  "select_target tt (p(''orientation'' := x)) = select_target tt p"
  by (cases tt) (simp_all add: select_target_def point3f_def object_prop_def)

lemma select_origin_orientation:
  "select_origin ot (p(''orientation'' := x)) = select_origin ot p"
  by (cases ot) (simp_all add: select_origin_def object_prop_def)

lemma DistantSensorImpl_orientation:
  "p ''direction'' = None \<Longrightarrow>
     DistantSensorImpl E tt ot (p(''orientation'' := x)) fm = DistantSensorImpl E tt ot p fm"
  by (simp only: DistantSensorImpl_def select_world_transform_orientation
      sensor_base_orientation bool_prop_orientation select_target_orientation
      select_origin_orientation)

lemma select_types_orientation:
  "select_ray_target_type (p(''orientation'' := x)) = select_ray_target_type p"
  "select_ray_origin_type (p(''orientation'' := x)) = select_ray_origin_type p"
  by (simp_all add: select_ray_target_type_def select_ray_origin_type_def has_property_def
      point3f_def)

lemma create_orientation:
  "p ''direction'' = None \<Longrightarrow> create E (p(''orientation'' := x)) fm = create E p fm"
  by (simp add: create_def DistantSensor_def expand_def select_types_orientation
      DistantSensorImpl_orientation sensor_base_orientation split: sum.splits)

lemma create_to_world:
  "p ''direction'' = None \<Longrightarrow> p ''to_world'' = Some (PTransform T) \<Longrightarrow>
   create E p fm = Inr s \<Longrightarrow> m_world_transform s = T"
  by (auto simp: create_def DistantSensor_def expand_def DistantSensorImpl_def sensor_base_def
      select_world_transform_no_direction split: sum.splits)

lemma create_to_world_props:
  "create example_env to_world_props (example_film 1 1) = Inr to_world_sensor"
  by (simp add: create_defs to_world_props_def no_props_def example_sensor_def example_film_def
      to_world_sensor_def)

text \<open>
  Claim C10. When \<open>to_world\<close> is supplied and \<open>direction\<close> is absent, \<open>orientation\<close>
  has no effect: setting it to any value, or removing it, constructs the very same sensor,
  whose world transform is the supplied one and whose rays, from either entry point and
  after any scene has been attached, agree on every input. The constructor looks at
  \<open>orientation\<close> only inside the branch that \<open>direction\<close> opens.
\<close>

theorem orientation_without_direction:
  assumes "p ''direction'' = None"
    and "p ''to_world'' = Some (PTransform T)"
    and "create E p fm = Inr s"
  shows "create E (p(''orientation'' := x)) fm = Inr s
         \<and> m_world_transform s = T
         \<and> (\<forall>s'. create E (p(''orientation'' := x)) fm = Inr s' \<longrightarrow>
               m_world_transform s' = m_world_transform s
               \<and> sample_ray E (set_scene E b s') t w f a m
                   = sample_ray E (set_scene E b s) t w f a m
               \<and> sample_ray_differential E (set_scene E b s') t w f a m
                   = sample_ray_differential E (set_scene E b s) t w f a m)"
  using assms create_orientation [where p = p and E = E and x = x and fm = fm]
    create_to_world [where p = p and E = E and fm = fm and s = s and T = T]
  by simp

theorem orientation_without_direction_witness:
  "to_world_props ''direction'' = None
   \<and> to_world_props ''to_world'' = Some (PTransform (\<lambda>t. tilt))
   \<and> create example_env to_world_props (example_film 1 1) = Inr to_world_sensor
   \<and> create example_env (to_world_props(''orientation'' := Some (PArray3f (0, 1, 0))))
         (example_film 1 1) = Inr to_world_sensor
   \<and> m_world_transform to_world_sensor = (\<lambda>t. tilt)"
proof -
  have d: "to_world_props ''direction'' = None"
    by (simp add: to_world_props_def no_props_def)
  have tw: "to_world_props ''to_world'' = Some (PTransform (\<lambda>t. tilt))"
    by (simp add: to_world_props_def)
  from orientation_without_direction [OF d tw create_to_world_props,
      of "Some (PArray3f (0, 1, 0))"]
  have "create example_env (to_world_props(''orientation'' := Some (PArray3f (0, 1, 0))))
         (example_film 1 1) = Inr to_world_sensor
        \<and> m_world_transform to_world_sensor = (\<lambda>t. tilt)"
    by simp
  with d tw create_to_world_props show ?thesis
    by simp
qed

subsection \<open>The stored bounding sphere\<close>

lemma stored_radius_eq:
  "radius (m_bsphere (set_scene E b s)) = max (RayEpsilon E) (radius b * (1 + RayEpsilon E))"
  by (simp add: set_scene_def)

lemma apply_call_ray_generation: "is_ray_generation c \<Longrightarrow> apply_call E s c = s"
  by (cases c) simp_all

lemma apply_calls_ray_generation:
  "\<forall>c\<in>set cs. is_ray_generation c \<Longrightarrow> apply_calls E s cs = s"
  unfolding apply_calls_def
  by (induction cs arbitrary: s) (simp_all add: apply_call_ray_generation)

text \<open>
  Whenever the scene's radius lies below epsilon, inflating and then clamping (the code)
  gives less than clamping and then inflating (the specification's wording).
\<close>

lemma stored_radius_below_spec:
  assumes "0 < RayEpsilon E" and "radius b < RayEpsilon E"
  shows "radius (m_bsphere (set_scene E b s)) < clamp_then_inflate E (radius b)"
proof -
  let ?e = "RayEpsilon E"
  have "radius b * (1 + ?e) < ?e * (1 + ?e)"
    using assms by (intro mult_strict_right_mono) simp_all
  moreover have "?e < ?e * (1 + ?e)"
    using assms(1) by (simp add: algebra_simps)
  moreover have "clamp_then_inflate E (radius b) = ?e * (1 + ?e)"
    using assms(2) by (simp add: clamp_then_inflate_def max_def)
  ultimately show ?thesis
    by (simp add: stored_radius_eq)
qed

text \<open>
  Claim C8, as stated: after \<open>set_scene\<close> the stored radius is the scene's radius clamped
  to at least epsilon and then inflated by \<open>1 + epsilon\<close>. For a scene of radius zero and
  an epsilon of 1/10000 the code stores epsilon itself, not epsilon times \<open>1 + epsilon\<close>.
\<close>

theorem set_scene_radius_counterexample:
  "radius (m_bsphere (set_scene example_env \<lparr>center = (0, 0, 0), radius = 0\<rparr> example_sensor))
     = 1 / 10000
   \<and> clamp_then_inflate example_env 0 = 10001 / 100000000
   \<and> radius (m_bsphere (set_scene example_env \<lparr>center = (0, 0, 0), radius = 0\<rparr> example_sensor))
       \<noteq> clamp_then_inflate example_env 0"
  by (simp add: set_scene_def example_env_def clamp_then_inflate_def)

text \<open>
  Claim C8, amended. After \<open>set_scene\<close> the stored radius is the larger of epsilon and the
  scene's radius inflated by \<open>1 + epsilon\<close>: the inflation comes first, the clamp second.
  With a positive epsilon the stored radius is strictly positive, also for a scene of
  radius zero, and no sequence of ray generation calls changes the stored sphere.
\<close>

theorem set_scene_radius:
  assumes "0 < RayEpsilon E"
    and "\<forall>c\<in>set cs. is_ray_generation c"
  shows "radius (m_bsphere (set_scene E b s)) =
           max (RayEpsilon E) (radius b * (1 + RayEpsilon E))
         \<and> 0 < radius (m_bsphere (set_scene E b s))
         \<and> m_bsphere (apply_calls E (set_scene E b s) cs) = m_bsphere (set_scene E b s)"
  using assms by (simp add: stored_radius_eq apply_calls_ray_generation)

theorem set_scene_radius_witness:
  "0 < RayEpsilon example_env
   \<and> is_ray_generation (Sample_ray 0 0 (0, 0) (0, 0) True)
   \<and> radius (m_bsphere (set_scene example_env \<lparr>center = (0, 0, 0), radius = 0\<rparr> example_sensor))
       = 1 / 10000
   \<and> m_bsphere (apply_calls example_env
         (set_scene example_env \<lparr>center = (0, 0, 0), radius = 0\<rparr> example_sensor)
         [Sample_ray 0 0 (0, 0) (0, 0) True])
       = \<lparr>center = (0, 0, 0), radius = 1 / 10000\<rparr>"
  using set_scene_radius [of example_env "[Sample_ray 0 0 (0, 0) (0, 0) True]"
      "\<lparr>center = (0, 0, 0), radius = 0\<rparr>" example_sensor]
  by (simp add: example_env_def set_scene_def)

subsection \<open>Ray generation\<close>

lemma sample_ray_impl_eq:
  assumes "sample_wavelength E w = (wl, ww)"
  shows "sample_ray_impl ext E s t w f a m =
     (let act = mask_argument E m;
          trafo = m_world_transform s t;
          d = ray_direction E s trafo f;
          tg = sample_target E s trafo t a act ww d;
          og = sample_origin s t (fst tg) d act
      in (\<lparr>ray_o = fst og, ray_d = d, ray_d_rcp = None, ray_time = t, ray_wavelengths = wl,
           \<dots> = ext\<rparr>,
          select_mask (snd og) (snd tg)))"
  using assms by (simp add: sample_ray_impl_def Let_def split: prod.splits)

lemma sample_ray_impl_direction:
  "ray_d (fst (sample_ray_impl ext E s t w f a m)) = ray_direction E s (m_world_transform s t) f"
  by (cases "sample_wavelength E w") (simp add: sample_ray_impl_eq Let_def)

lemma ray_update_direction: "ray_d (ray_update r) = ray_d r"
  by (simp add: ray_update_def split: prod.splits)

lemma sample_ray_direction:
  "ray_d (fst (sample_ray E s t w f a m)) = ray_direction E s (m_world_transform s t) f"
proof (cases "sample_ray_impl () E s t w f a (mask_argument E m)")
  case (Pair r wt)
  with sample_ray_impl_direction [of "()" E s t w f a "mask_argument E m"]
  have "ray_d r = ray_direction E s (m_world_transform s t) f"
    by simp
  with Pair show ?thesis
    by (simp add: sample_ray_def ray_update_direction)
qed

lemma ray_direction_Single:
  "m_direction_type s = Single \<Longrightarrow>
     ray_direction E s trafo f =
       (if m_flip_directions s then trafo (0, 0, 1) else trafo (vneg (0, 0, 1)))"
  by (simp add: ray_direction_def local_direction_def)

text \<open>
  Claim C6. In \<open>Single\<close> mode the direction of the ray is the world transform applied to
  \<open>(0, 0, 1)\<close> when \<open>flip_directions\<close> is set and to \<open>-(0, 0, 1)\<close> when it is not,
  whatever the film sample: two film samples give the same direction. This holds for
  \<open>sample_ray_impl\<close> and for the entry point \<open>sample_ray\<close>.
\<close>

theorem single_direction:
  assumes "m_direction_type s = Single"
  shows "ray_d (fst (sample_ray_impl ext E s t w f a m)) =
           (if m_flip_directions s then m_world_transform s t (0, 0, 1)
            else m_world_transform s t (vneg (0, 0, 1)))
         \<and> ray_d (fst (sample_ray_impl ext E s t w f' a m)) =
             ray_d (fst (sample_ray_impl ext E s t w f a m))
         \<and> ray_d (fst (sample_ray E s t w f a m)) =
             (if m_flip_directions s then m_world_transform s t (0, 0, 1)
              else m_world_transform s t (vneg (0, 0, 1)))"
  using assms
  by (simp add: sample_ray_impl_direction sample_ray_direction ray_direction_Single)

theorem single_direction_witness:
  "m_direction_type example_sensor = Single
   \<and> ray_d (fst (sample_ray_impl () example_env example_sensor 0 0 (1 / 4, 3 / 4) (0, 0) True))
       = (0, 0, - 1)
   \<and> ray_d (fst (sample_ray_impl () example_env example_sensor 0 0 (1 / 2, 1 / 8) (0, 0) True))
       = (0, 0, - 1)
   \<and> ray_d (fst (sample_ray_impl () example_env (example_sensor\<lparr>m_flip_directions := True\<rparr>)
         0 0 (1 / 4, 3 / 4) (0, 0) True)) = (0, 0, 1)"
proof -
  have m: "m_direction_type example_sensor = Single"
    by (simp add: example_sensor_def)
  have m': "m_direction_type (example_sensor\<lparr>m_flip_directions := True\<rparr>) = Single"
    by (simp add: example_sensor_def)
  from single_direction [OF m, of "()" example_env 0 0 "(1 / 4, 3 / 4)" "(0, 0)" True
      "(1 / 2, 1 / 8)"]
    single_direction [OF m', of "()" example_env 0 0 "(1 / 4, 3 / 4)" "(0, 0)" True
      "(1 / 4, 3 / 4)"]
  show ?thesis
    by (simp add: example_sensor_def)
qed

subsection \<open>Origins on the bounding sphere\<close>

lemma sample_origin_BoundingSphere:
  "m_origin s = Origin_BoundingSphere \<Longrightarrow>
     sample_origin s t tgt d act =
       (vsub tgt (vscale d ((if target_type (m_target s) = TargetNone then 1 else 2)
                            * radius (m_bsphere s))), act)"
  by (cases d) (simp add: sample_origin_def mult.assoc)

lemma target_type_with_intersect [simp]:
  "target_type (target_with_intersect ri tg) = target_type tg"
  by (cases tg) (simp_all add: target_with_intersect_def)

lemma sample_target_with_intersect:
  "sample_target E (s\<lparr>m_target := target_with_intersect ri (m_target s)\<rparr>) trafo t a act ww d
     = sample_target E s trafo t a act ww d"
  by (simp add: sample_target_def target_with_intersect_def Let_def split: target.splits)

lemma sample_origin_with_intersect:
  "m_origin s = Origin_BoundingSphere \<Longrightarrow>
     sample_origin (s\<lparr>m_target := target_with_intersect ri (m_target s)\<rparr>) t tgt d act
       = sample_origin s t tgt d act"
  by (simp add: sample_origin_def)

lemma ray_direction_with_target:
  "ray_direction E (s\<lparr>m_target := tg\<rparr>) trafo f = ray_direction E s trafo f"
  by (simp add: ray_direction_def local_direction_def)

lemma sample_ray_impl_with_intersect:
  assumes "m_origin s = Origin_BoundingSphere"
  shows "sample_ray_impl ext E (s\<lparr>m_target := target_with_intersect ri (m_target s)\<rparr>)
           t w f a m
         = sample_ray_impl ext E s t w f a m"
proof (cases "sample_wavelength E w")
  case (Pair wl ww)
  then show ?thesis
    using assms
    by (simp add: sample_ray_impl_eq Let_def sample_target_with_intersect
        sample_origin_with_intersect ray_direction_with_target)
qed

text \<open>
  Claim C2. With the origin on the bounding sphere, the origin of the ray is
  \<open>target - direction * (k * radius)\<close>, where \<open>k\<close> is 1 when there is no target
  specification and 2 when the target is a point or a shape. The weight is masked by the
  mask the call came with and by nothing else, so the placement invalidates no sample,
  and no intersection routine has a part in the result: exchanging the one of the target
  shape changes nothing.
\<close>

theorem bounding_sphere_origin:
  assumes "m_origin s = Origin_BoundingSphere"
    and "sample_wavelength E w = (wl, ww)"
    and "d = ray_direction E s (m_world_transform s t) f"
    and "sample_target E s (m_world_transform s t) t a (mask_argument E m) ww d = (tgt, tw)"
    and "k = (if target_type (m_target s) = TargetNone then 1 else 2)"
  shows "ray_o (fst (sample_ray_impl ext E s t w f a m)) =
           vsub tgt (vscale d (k * radius (m_bsphere s)))
         \<and> ray_d (fst (sample_ray_impl ext E s t w f a m)) = d
         \<and> snd (sample_ray_impl ext E s t w f a m) = select_mask (mask_argument E m) tw
         \<and> sample_ray_impl ext E (s\<lparr>m_target := target_with_intersect ri (m_target s)\<rparr>)
               t w f a m
             = sample_ray_impl ext E s t w f a m"
proof -
  have "ray_o (fst (sample_ray_impl ext E s t w f a m)) =
           vsub tgt (vscale d (k * radius (m_bsphere s)))
         \<and> ray_d (fst (sample_ray_impl ext E s t w f a m)) = d
         \<and> snd (sample_ray_impl ext E s t w f a m) = select_mask (mask_argument E m) tw"
    using assms by (simp add: sample_ray_impl_eq Let_def sample_origin_BoundingSphere)
  moreover note sample_ray_impl_with_intersect [OF assms(1), of ext E ri t w f a m]
  ultimately show ?thesis
    by blast
qed

theorem bounding_sphere_origin_witness:
  "m_origin point_sensor = Origin_BoundingSphere
   \<and> sample_wavelength example_env 0 = ([550], [1])
   \<and> (0, 0, - 1) = ray_direction example_env point_sensor (m_world_transform point_sensor 0) (0, 0)
   \<and> sample_target example_env point_sensor (m_world_transform point_sensor 0) 0 (0, 0)
         (mask_argument example_env True) [1] (0, 0, - 1) = ((1, 2, 3), [1])
   \<and> (2::real) = (if target_type (m_target point_sensor) = TargetNone then 1 else 2)
   \<and> ray_o (fst (sample_ray_impl () example_env point_sensor 0 0 (0, 0) (0, 0) True)) = (1, 2, 7)
   \<and> snd (sample_ray_impl () example_env point_sensor 0 0 (0, 0) (0, 0) True) = [1]"
proof -
  have o: "m_origin point_sensor = Origin_BoundingSphere"
    by (simp add: point_sensor_def)
  have wv: "sample_wavelength example_env 0 = ([550], [1])"
    by (simp add: example_env_def)
  have d: "(0, 0, - 1) =
      ray_direction example_env point_sensor (m_world_transform point_sensor 0) (0, 0)"
    by (simp add: ray_direction_def local_direction_def point_sensor_def)
  have tg: "sample_target example_env point_sensor (m_world_transform point_sensor 0) 0 (0, 0)
         (mask_argument example_env True) [1] (0, 0, - 1) = ((1, 2, 3), [1])"
    by (simp add: sample_target_def point_sensor_def)
  have k: "(2::real) = (if target_type (m_target point_sensor) = TargetNone then 1 else 2)"
    by (simp add: point_sensor_def)
  from bounding_sphere_origin [OF o wv d tg k, of "()"
      "\<lambda>r act. \<lparr>si_p = (0, 0, 0), si_is_valid = False\<rparr>"]
  have "ray_o (fst (sample_ray_impl () example_env point_sensor 0 0 (0, 0) (0, 0) True)) = (1, 2, 7)
   \<and> snd (sample_ray_impl () example_env point_sensor 0 0 (0, 0) (0, 0) True) = [1]"
    by (simp add: point_sensor_def example_env_def select_mask_def)
  with o wv d tg k show ?thesis
    by simp
qed

subsection \<open>The weight without a target specification\<close>

lemma sample_target_None:
  "m_target s = Target_None \<Longrightarrow>
     snd (sample_target E s trafo t a act ww d) = map (\<lambda>x. x / dot (vneg d) (0, 0, 1)) ww"
  by (simp add: sample_target_def Let_def split: prod.splits)

text \<open>
  The divisor is minus the world-space z-component of the ray direction; under the identity
  transform and without \<open>flip_directions\<close> it is the z-component of the direction
  sampled in the sensor's frame.
\<close>

lemma code_cosine: "dot (vneg d) (0, 0, 1) = - snd (snd d)"
  by (cases d) simp

lemma code_cosine_identity:
  "\<not> m_flip_directions s \<Longrightarrow>
     dot (vneg (ray_direction E s (\<lambda>v. v) f)) (0, 0, 1) = snd (snd (local_direction E s f))"
  by (cases "local_direction E s f") (simp add: ray_direction_def)

lemmas tilted_defs =
  tilted_sensor_def to_world_sensor_def example_sensor_def set_scene_def tilt_def
  example_env_def

lemma sample_ray_impl_None_weight:
  assumes "m_target s = Target_None"
    and "sample_wavelength E w = (wl, ww)"
    and "d = ray_direction E s (m_world_transform s t) f"
    and "sample_target E s (m_world_transform s t) t a (mask_argument E m) ww d = (tgt, tw)"
    and "snd (sample_origin s t tgt d (mask_argument E m))"
  shows "snd (sample_ray_impl ext E s t w f a m) = map (\<lambda>x. x / dot (vneg d) (0, 0, 1)) ww"
  using assms
    sample_target_None [OF assms(1), of E "m_world_transform s t" t a "mask_argument E m" ww d]
  by (simp add: sample_ray_impl_eq Let_def select_mask_def)

text \<open>
  The disk of target points is taken through the world transform (line 360), the vector
  \<open>(0, 0, 1)\<close> of the divisor is not (line 364). A sensor whose axis is horizontal
  therefore divides by zero on every sample of its 1 by 1 film.
\<close>

lemma sideways_divisor:
  "dot (vneg (ray_direction example_env sideways_sensor (m_world_transform sideways_sensor t) f))
       (0, 0, 1) = 0
   \<and> claimed_cosine (m_world_transform sideways_sensor t)
         (ray_direction example_env sideways_sensor (m_world_transform sideways_sensor t) f) = 1"
  by (simp add: ray_direction_def local_direction_def sideways_sensor_def example_sensor_def
      quarter_turn_def claimed_cosine_def)

text \<open>
  Claim C1. Without a target specification the weight is the spectral weight divided by
  the cosine between the sampled direction and the axis of the sensor, the z-axis of the
  sensor's frame, for every world transform. The code departs from this. Take the sensor
  that \<open>to_world = tilt\<close> and a 1 by 1 film construct, attached to a scene of radius one.
  Its one direction is the sensor's axis, so the cosine is 1 and the weight should be the
  spectral weight 1; the code divides by the world-space z-component 4/5 of the negated
  direction and returns 5/4. With a point as target the same sensor returns the spectral
  weight 1: only the path without a target depends on how the sensor is turned in the
  world.
\<close>

theorem none_target_weight_tilted:
  "snd (sample_ray_impl () example_env tilted_sensor 0 0 (1 / 2, 1 / 2) (1 / 2, 1 / 2) True)
     = [5 / 4]
   \<and> map (\<lambda>x. x / claimed_cosine (m_world_transform tilted_sensor 0)
             (ray_d (fst (sample_ray_impl () example_env tilted_sensor 0 0
                (1 / 2, 1 / 2) (1 / 2, 1 / 2) True))))
       (snd (sample_wavelength example_env 0)) = [1]
   \<and> snd (sample_ray_impl () example_env tilted_sensor 0 0 (1 / 2, 1 / 2) (1 / 2, 1 / 2) True)
       \<noteq> map (\<lambda>x. x / claimed_cosine (m_world_transform tilted_sensor 0)
                 (ray_d (fst (sample_ray_impl () example_env tilted_sensor 0 0
                    (1 / 2, 1 / 2) (1 / 2, 1 / 2) True))))
            (snd (sample_wavelength example_env 0))
   \<and> snd (sample_ray_impl () example_env tilted_point_sensor 0 0 (1 / 2, 1 / 2) (1 / 2, 1 / 2)
         True) = [1]"
  by (simp add: sample_ray_impl_def tilted_defs tilted_point_sensor_def Let_def
      ray_direction_def local_direction_def sample_target_def sample_origin_def select_mask_def
      claimed_cosine_def)

subsection \<open>The weight with a shape as target\<close>

lemma sample_target_Shape:
  "m_target s = Target_Shape sh \<Longrightarrow>
     sample_target E s trafo t a act ww d =
       (ps_p (sample_position sh t a act),
        map (\<lambda>x. x / (ps_pdf (sample_position sh t a act) * surface_area sh)) ww)"
  by (simp add: sample_target_def Let_def)

lemma shape_shape_sensor_direction0:
  "ray_direction example_env shape_shape_sensor (m_world_transform shape_shape_sensor 0) (0, 0)
     = (- 1, 0, 0)"
  by (simp add: ray_direction_def local_direction_def shape_shape_sensor_def sincos_def)

text \<open>
  Claim C7, as stated: with a shape as target the weight of every sample is the spectral
  weight divided by the product of the density of the position sample and the surface
  area. Take the unit-density square as target, the square at height 5 as origin and a
  2 by 1 film. At the film sample \<open>(0, 0)\<close> the ray is horizontal, the probe ray misses
  the origin shape, and the code returns the weight 0 where the formula gives 1.
\<close>

theorem shape_target_weight_counterexample:
  "snd (sample_ray_impl () example_env shape_shape_sensor 0 0 (0, 0) (1 / 2, 1 / 2) True) = [0]
   \<and> map (\<lambda>x. x / (ps_pdf (sample_position (square_shape 0) 0 (1 / 2, 1 / 2) True)
                     * surface_area (square_shape 0)))
       (snd (sample_wavelength example_env 0)) = [1]
   \<and> snd (sample_ray_impl () example_env shape_shape_sensor 0 0 (0, 0) (1 / 2, 1 / 2) True)
       \<noteq> map (\<lambda>x. x / (ps_pdf (sample_position (square_shape 0) 0 (1 / 2, 1 / 2) True)
                         * surface_area (square_shape 0)))
            (snd (sample_wavelength example_env 0))"
proof -
  have wv: "sample_wavelength example_env 0 = ([550], [1])"
    by (simp add: example_env_def)
  have "snd (sample_ray_impl () example_env shape_shape_sensor 0 0 (0, 0) (1 / 2, 1 / 2) True)
      = [0]"
    by (simp add: sample_ray_impl_eq [OF wv] Let_def shape_shape_sensor_direction0)
       (simp add: sample_target_def sample_origin_def shape_shape_sensor_def square_shape_def
          example_env_def select_mask_def Let_def)
  moreover have "map (\<lambda>x. x / (ps_pdf (sample_position (square_shape 0) 0 (1 / 2, 1 / 2) True)
                     * surface_area (square_shape 0)))
       (snd (sample_wavelength example_env 0)) = [1]"
    by (simp add: square_shape_def example_env_def)
  ultimately show ?thesis
    by simp
qed

text \<open>
  Claim C7, amended. With a shape as target, every sample that is still active after the
  origin has been placed (its mask is set and, with a shape as origin, its probe ray hits)
  has as weight the spectral weight divided by the product of the density of the position
  sample and the surface area of the shape (both nonzero); every other sample has the
  weight zero. No cosine against the ray direction enters: the weight that the target
  step computes is the same for every direction.
\<close>

theorem shape_target_weight:
  assumes "m_target s = Target_Shape sh"
    and "sample_wavelength E w = (wl, ww)"
    and "d = ray_direction E s (m_world_transform s t) f"
    and "ps = sample_position sh t a (mask_argument E m)"
    and "ps_pdf ps \<noteq> 0"
    and "surface_area sh \<noteq> 0"
  shows "snd (sample_ray_impl ext E s t w f a m) =
           (if snd (sample_origin s t (ps_p ps) d (mask_argument E m))
            then map (\<lambda>x. x / (ps_pdf ps * surface_area sh)) ww
            else map (\<lambda>_. 0) ww)
         \<and> snd (sample_target E s (m_world_transform s t) t a (mask_argument E m) ww d') =
             snd (sample_target E s (m_world_transform s t) t a (mask_argument E m) ww d)"
  using assms
  by (simp add: sample_ray_impl_eq Let_def sample_target_Shape select_mask_def)

text \<open>
  The witness takes the tilted sensor and the square that is sampled on one half only:
  the divisor is 1/2 times 4, and the cosine between the negated direction and the normal
  of the sample is 4/5; the weight is 1/2, not 1 and not 2/5.
\<close>

theorem shape_target_weight_witness:
  "m_target tilted_shape_sensor = Target_Shape (half_sampled_square 0)
   \<and> sample_wavelength example_env 0 = ([550], [1])
   \<and> (0, 3 / 5, - (4 / 5)) =
       ray_direction example_env tilted_shape_sensor (m_world_transform tilted_shape_sensor 0)
         (1 / 2, 1 / 2)
   \<and> \<lparr>ps_p = (- (1 / 2), 0, 0), ps_n = (0, 0, 1), ps_pdf = 1 / 2\<rparr> =
       sample_position (half_sampled_square 0) 0 (1 / 2, 1 / 2) (mask_argument example_env True)
   \<and> ps_pdf \<lparr>ps_p = (- (1 / 2), 0, 0), ps_n = (0, 0, 1), ps_pdf = 1 / 2\<rparr> \<noteq> 0
   \<and> surface_area (half_sampled_square 0) \<noteq> 0
   \<and> dot (vneg (0, 3 / 5, - (4 / 5))) (0, 0, 1) = 4 / 5
   \<and> snd (sample_ray_impl () example_env tilted_shape_sensor 0 0 (1 / 2, 1 / 2) (1 / 2, 1 / 2)
         True) = [1 / 2]"
proof -
  have tg: "m_target tilted_shape_sensor = Target_Shape (half_sampled_square 0)"
    by (simp add: tilted_shape_sensor_def)
  have wv: "sample_wavelength example_env 0 = ([550], [1])"
    by (simp add: example_env_def)
  have d: "(0, 3 / 5, - (4 / 5)) =
       ray_direction example_env tilted_shape_sensor (m_world_transform tilted_shape_sensor 0)
         (1 / 2, 1 / 2)"
    by (simp add: ray_direction_def local_direction_def tilted_shape_sensor_def tilt_def)
  have ps: "\<lparr>ps_p = (- (1 / 2), 0, 0), ps_n = (0, 0, 1), ps_pdf = 1 / 2\<rparr> =
       sample_position (half_sampled_square 0) 0 (1 / 2, 1 / 2) (mask_argument example_env True)"
    by (simp add: half_sampled_square_def)
  have pdf: "ps_pdf \<lparr>ps_p = (- (1 / 2), 0, 0), ps_n = (0, 0, 1), ps_pdf = 1 / 2\<rparr> \<noteq> 0"
    by simp
  have ar: "surface_area (half_sampled_square 0) \<noteq> 0"
    by (simp add: half_sampled_square_def square_shape_def)
  have cs: "dot (vneg (0, 3 / 5, - (4 / 5))) (0, 0, 1) = 4 / 5"
    by simp
  from shape_target_weight [OF tg wv d ps pdf ar, of "()"]
  have "snd (sample_ray_impl () example_env tilted_shape_sensor 0 0 (1 / 2, 1 / 2) (1 / 2, 1 / 2)
         True) = [1 / 2]"
    by (simp add: half_sampled_square_def square_shape_def sample_origin_def
        tilted_shape_sensor_def example_env_def)
  with tg wv d ps pdf ar cs show ?thesis
    by simp
qed

subsection \<open>A probe ray that misses the origin shape\<close>

lemma select_mask_False: "select_mask False w = map (\<lambda>_. 0) w"
  by (simp add: select_mask_def)

lemma sample_origin_miss:
  "m_origin s = Origin_Shape sh \<Longrightarrow>
   \<not> si_is_valid (ray_intersect sh (tgt, vneg d, t) act) \<Longrightarrow>
     snd (sample_origin s t tgt d act) = False"
  by (simp add: sample_origin_def Let_def)

lemma sample_ray_impl_packet_nth:
  "i < length lanes \<Longrightarrow>
     sample_ray_impl_packet E s lanes ! i = sample_ray_impl_packet E s [lanes ! i] ! 0"
  by (simp add: sample_ray_impl_packet_def)

lemma sample_ray_impl_packet_single:
  "sample_ray_impl_packet E s [(t, w, f, a, m)] = [sample_ray_impl () E s t w f a m]"
  by (simp add: sample_ray_impl_packet_def)

lemma shape_origin_sensor_direction0:
  "ray_direction example_env shape_origin_sensor (m_world_transform shape_origin_sensor 0) (0, 0)
     = (- 1, 0, 0)"
  by (simp add: ray_direction_def local_direction_def shape_origin_sensor_def sincos_def)

lemma shape_origin_sensor_direction1:
  "ray_direction example_env shape_origin_sensor (m_world_transform shape_origin_sensor 0) (1 / 2, 0)
     = (0, 0, - 1)"
  by (simp add: ray_direction_def local_direction_def shape_origin_sensor_def sincos_def)

text \<open>
  Claim C3. With a shape as origin, when the probe ray from the target point along the
  negated ray direction does not hit the shape, the sample is marked invalid (the mask
  after the origin step is false) and the returned weight is zero in every channel.
  \<open>sample_ray_impl\<close> is a total function with no error value: the miss is a result, not
  an exception. In a packet every lane gets the result it would get alone, so a miss in
  one lane leaves the other lanes as they are.
\<close>

theorem shape_origin_miss:
  assumes "m_origin s = Origin_Shape sh"
    and "sample_wavelength E w = (wl, ww)"
    and "d = ray_direction E s (m_world_transform s t) f"
    and "sample_target E s (m_world_transform s t) t a (mask_argument E m) ww d = (tgt, tw)"
    and "\<not> si_is_valid (ray_intersect sh (tgt, vneg d, t) (mask_argument E m))"
  shows "snd (sample_origin s t tgt d (mask_argument E m)) = False
         \<and> snd (sample_ray_impl ext E s t w f a m) = map (\<lambda>_. 0) tw
         \<and> (\<forall>x\<in>set (snd (sample_ray_impl ext E s t w f a m)). x = 0)
         \<and> length (sample_ray_impl_packet E s lanes) = length lanes
         \<and> (\<forall>i<length lanes.
               sample_ray_impl_packet E s lanes ! i = sample_ray_impl_packet E s [lanes ! i] ! 0)"
proof -
  have inv: "snd (sample_origin s t tgt d (mask_argument E m)) = False"
    using assms(1,5) by (rule sample_origin_miss)
  have wt: "snd (sample_ray_impl ext E s t w f a m) = map (\<lambda>_. 0) tw"
    using assms(2,3,4) inv by (simp add: sample_ray_impl_eq Let_def select_mask_False)
  have zero: "\<forall>x\<in>set (snd (sample_ray_impl ext E s t w f a m)). x = 0"
    unfolding wt by simp
  have len: "length (sample_ray_impl_packet E s lanes) = length lanes"
    by (simp add: sample_ray_impl_packet_def)
  have lanewise: "\<forall>i<length lanes.
      sample_ray_impl_packet E s lanes ! i = sample_ray_impl_packet E s [lanes ! i] ! 0"
    using sample_ray_impl_packet_nth by blast
  from inv wt zero len lanewise show ?thesis
    by blast
qed

theorem shape_origin_miss_witness:
  "m_origin shape_origin_sensor = Origin_Shape (square_shape 5)
   \<and> sample_wavelength example_env 0 = ([550], [1])
   \<and> (- 1, 0, 0) =
       ray_direction example_env shape_origin_sensor (m_world_transform shape_origin_sensor 0) (0, 0)
   \<and> sample_target example_env shape_origin_sensor (m_world_transform shape_origin_sensor 0) 0
         (0, 0) (mask_argument example_env True) [1] (- 1, 0, 0) = ((0, 0, 0), [1])
   \<and> \<not> si_is_valid (ray_intersect (square_shape 5) ((0, 0, 0), vneg (- 1, 0, 0), 0)
          (mask_argument example_env True))
   \<and> snd (sample_ray_impl () example_env shape_origin_sensor 0 0 (0, 0) (0, 0) True) = [0]
   \<and> sample_ray_impl_packet example_env shape_origin_sensor
         [(0, 0, (0, 0), (0, 0), True), (0, 0, (1 / 2, 0), (0, 0), True)] ! 1
       = sample_ray_impl () example_env shape_origin_sensor 0 0 (1 / 2, 0) (0, 0) True
   \<and> sample_ray_impl () example_env shape_origin_sensor 0 0 (1 / 2, 0) (0, 0) True
       = (\<lparr>ray_o = (0, 0, 5), ray_d = (0, 0, - 1), ray_d_rcp = None, ray_time = 0,
           ray_wavelengths = [550]\<rparr>, [1])"
proof -
  have o: "m_origin shape_origin_sensor = Origin_Shape (square_shape 5)"
    by (simp add: shape_origin_sensor_def)
  have wv: "sample_wavelength example_env 0 = ([550], [1])"
    by (simp add: example_env_def)
  have d: "(- 1, 0, 0) =
       ray_direction example_env shape_origin_sensor (m_world_transform shape_origin_sensor 0) (0, 0)"
    by (simp add: shape_origin_sensor_direction0)
  have tg: "sample_target example_env shape_origin_sensor (m_world_transform shape_origin_sensor 0) 0
         (0, 0) (mask_argument example_env True) [1] (- 1, 0, 0) = ((0, 0, 0), [1])"
    by (simp add: sample_target_def shape_origin_sensor_def)
  have miss: "\<not> si_is_valid (ray_intersect (square_shape 5) ((0, 0, 0), vneg (- 1, 0, 0), 0)
          (mask_argument example_env True))"
    by (simp add: square_shape_def)
  have hit: "sample_ray_impl () example_env shape_origin_sensor 0 0 (1 / 2, 0) (0, 0) True
       = (\<lparr>ray_o = (0, 0, 5), ray_d = (0, 0, - 1), ray_d_rcp = None, ray_time = 0,
           ray_wavelengths = [550]\<rparr>, [1])"
    by (simp add: sample_ray_impl_eq [OF wv] Let_def shape_origin_sensor_direction1)
       (simp add: sample_target_def sample_origin_def shape_origin_sensor_def square_shape_def
          example_env_def select_mask_def Let_def)
  from shape_origin_miss [OF o wv d tg miss, of "()"
      "[(0, 0, (0, 0), (0, 0), True), (0, 0, (1 / 2, 0), (0, 0), True)]"]
  have "snd (sample_ray_impl () example_env shape_origin_sensor 0 0 (0, 0) (0, 0) True) = [0]
   \<and> sample_ray_impl_packet example_env shape_origin_sensor
         [(0, 0, (0, 0), (0, 0), True), (0, 0, (1 / 2, 0), (0, 0), True)] ! 1
       = sample_ray_impl () example_env shape_origin_sensor 0 0 (1 / 2, 0) (0, 0) True"
    by (simp add: sample_ray_impl_packet_single)
  with o wv d tg miss hit show ?thesis
    by simp
qed

subsection \<open>The two entry points\<close>

text \<open>
  Claim C9. On the same arguments and the same sensor, \<open>sample_ray\<close> and
  \<open>sample_ray_differential\<close> return rays with the same origin, direction, time and
  wavelengths and the same weight, and the ray of \<open>sample_ray_differential\<close> has
  \<open>has_differentials\<close> set to false.
\<close>

theorem sample_ray_differential_agrees:
  "ray_o (fst (sample_ray_differential E s t w f a m)) = ray_o (fst (sample_ray E s t w f a m))
   \<and> ray_d (fst (sample_ray_differential E s t w f a m)) = ray_d (fst (sample_ray E s t w f a m))
   \<and> ray_time (fst (sample_ray_differential E s t w f a m))
       = ray_time (fst (sample_ray E s t w f a m))
   \<and> ray_wavelengths (fst (sample_ray_differential E s t w f a m))
       = ray_wavelengths (fst (sample_ray E s t w f a m))
   \<and> snd (sample_ray_differential E s t w f a m) = snd (sample_ray E s t w f a m)
   \<and> has_differentials (fst (sample_ray_differential E s t w f a m)) = False"
  by (simp add: sample_ray_differential_def sample_ray_def sample_ray_impl_def ray_update_def
      Let_def split: prod.splits)

end
